theory Spec2Isabelle
  imports Complex_Main "HOL-Library.Sublist"
begin

section \<open>Python values and dictionaries\<close>

text \<open>
  The handlers of \<^verbatim>\<open>src/main.py\<close> work on Python dictionaries whose values are
  \<^verbatim>\<open>None\<close>, booleans, integers, strings, lists, nested dictionaries and the
  document store's native identity (\<^verbatim>\<open>ObjectId\<close>, a 12-byte value, kept here as the
  natural number its bytes spell). Floating point values are left out.
  A dictionary is an association list in insertion order with one binding per key.
\<close>

datatype pyval =
    PNone
  | PBool bool
  | PInt int
  | PStr string
  | PList "pyval list"
  | PDict "(string \<times> pyval) list"
  | PObjectId nat

type_synonym document = "(string \<times> pyval) list"

definition dict_get :: "(string \<times> 'v) list \<Rightarrow> string \<Rightarrow> 'v option" where
  "dict_get d k = map_of d k"

definition has_key :: "(string \<times> 'v) list \<Rightarrow> string \<Rightarrow> bool" where
  "has_key d k = (k \<in> set (map fst d))"

text \<open>\<^verbatim>\<open>d.pop(k)\<close> for a key that is present: the dictionary without the key.\<close>

definition dict_del :: "(string \<times> 'v) list \<Rightarrow> string \<Rightarrow> (string \<times> 'v) list" where
  "dict_del d k = filter (\<lambda>kv. fst kv \<noteq> k) d"

text \<open>\<^verbatim>\<open>d[k] = v\<close>: an existing key keeps its position, a new key goes last.\<close>

fun dict_set :: "(string \<times> 'v) list \<Rightarrow> string \<Rightarrow> 'v \<Rightarrow> (string \<times> 'v) list" where
  "dict_set [] k v = [(k, v)]"
| "dict_set ((k', v') # d) k v =
     (if k' = k then (k, v) # d else (k', v') # dict_set d k v)"

subsection \<open>The builtin \<^verbatim>\<open>str\<close>\<close>

definition digit_char :: "nat \<Rightarrow> char" where
  "digit_char n = ''0123456789abcdef'' ! (n mod 16)"

fun str_nat :: "nat \<Rightarrow> string" where
  "str_nat n = (if n < 10 then [digit_char n] else str_nat (n div 10) @ [digit_char (n mod 10)])"

declare str_nat.simps [simp del]

definition str_int :: "int \<Rightarrow> string" where
  "str_int i = (if i < 0 then CHR ''-'' # str_nat (nat (- i)) else str_nat (nat i))"

fun hex_pad :: "nat \<Rightarrow> nat \<Rightarrow> string" where
  "hex_pad 0 n = []"
| "hex_pad (Suc k) n = hex_pad k (n div 16) @ [digit_char (n mod 16)]"

text \<open>\<^verbatim>\<open>str(ObjectId)\<close> is the 24 hexadecimal digits of its 12 bytes.\<close>

definition oid_str :: "nat \<Rightarrow> string" where
  "oid_str n = hex_pad 24 n"

fun join :: "string \<Rightarrow> string list \<Rightarrow> string" where
  "join sep [] = []"
| "join sep [x] = x"
| "join sep (x # y # ys) = x @ sep @ join sep (y # ys)"

text \<open>
  \<^verbatim>\<open>repr\<close> of a string: single quotes unless the text has a single quote and no double
  quote; the quote and the backslash are escaped, tab, newline and carriage return are
  written with their letters, the other control characters as \<^verbatim>\<open>\xhh\<close>. Bytes from
  128 on are the UTF-8 encoding of printable characters and stay as they are.
\<close>

definition repr_char :: "char \<Rightarrow> char \<Rightarrow> string" where
  "repr_char q c =
     (let n = (of_char c :: nat) in
      if c = q \<or> n = 92 then [char_of (92::nat), c]
      else if n = 9 then [char_of (92::nat), CHR ''t'']
      else if n = 10 then [char_of (92::nat), CHR ''n'']
      else if n = 13 then [char_of (92::nat), CHR ''r'']
      else if n < 32 \<or> n = 127 then
        [char_of (92::nat), CHR ''x'', digit_char (n div 16), digit_char (n mod 16)]
      else [c])"

definition repr_str :: "string \<Rightarrow> string" where
  "repr_str s =
     (let q = (if char_of (39::nat) \<in> set s \<and> char_of (34::nat) \<notin> set s
               then char_of (34::nat) else char_of (39::nat))
      in q # concat (map (repr_char q) s) @ [q])"

fun py_repr :: "pyval \<Rightarrow> string" where
  "py_repr PNone = ''None''"
| "py_repr (PBool b) = (if b then ''True'' else ''False'')"
| "py_repr (PInt i) = str_int i"
| "py_repr (PStr s) = repr_str s"
| "py_repr (PList xs) = ''['' @ join '', '' (map py_repr xs) @ '']''"
| "py_repr (PDict kvs) =
     ''{'' @ join '', '' (map (\<lambda>kv. repr_str (fst kv) @ '': '' @ py_repr (snd kv)) kvs) @ ''}''"
| "py_repr (PObjectId n) =
     ''ObjectId('' @ [char_of (39::nat)] @ oid_str n @ [char_of (39::nat)] @ '')''"

definition py_str :: "pyval \<Rightarrow> string" where
  "py_str v = (case v of PStr s \<Rightarrow> s | PObjectId n \<Rightarrow> oid_str n | _ \<Rightarrow> py_repr v)"


section \<open>Request bodies and the \<^verbatim>\<open>CommunityPostIn\<close> model\<close>

text \<open>
  A request body is a JSON value. Numbers are kept as integers: every number is rejected
  alike by the text and list fields below. A JSON object may repeat a key; the parser
  keeps the last value.
\<close>

datatype json =
    JNull
  | JBool bool
  | JNum int
  | JStr string
  | JArr "json list"
  | JObj "(string \<times> json) list"

definition json_get :: "(string \<times> json) list \<Rightarrow> string \<Rightarrow> json option" where
  "json_get kvs k = map_of (rev kvs) k"

datatype loc_item = LKey string | LIndex nat

text \<open>A validation error: the path of the offending value and the error type.\<close>

type_synonym verror = "loc_item list \<times> string"

text \<open>
  \<^verbatim>\<open>
  class CommunityPostIn(BaseModel):
      title: str
      content: str
      author: str
      tags: Optional[List[str]] = []
  \<close>
\<close>

record CommunityPostIn =
  title :: string
  content :: string
  author :: string
  tags :: "string list option"

text \<open>A field declared \<^verbatim>\<open>str\<close> with no default: required, and only a JSON string passes.\<close>

definition field_str :: "(string \<times> json) list \<Rightarrow> string \<Rightarrow> verror list + string" where
  "field_str kvs name =
     (case json_get kvs name of
        None \<Rightarrow> Inl [([LKey ''body'', LKey name], ''missing'')]
      | Some (JStr s) \<Rightarrow> Inr s
      | Some _ \<Rightarrow> Inl [([LKey ''body'', LKey name], ''string_type'')])"

fun item_errors :: "string \<Rightarrow> nat \<Rightarrow> json list \<Rightarrow> verror list" where
  "item_errors name i [] = []"
| "item_errors name i (JStr s # xs) = item_errors name (Suc i) xs"
| "item_errors name i (x # xs) =
     ([LKey ''body'', LKey name, LIndex i], ''string_type'') # item_errors name (Suc i) xs"

fun item_strings :: "json list \<Rightarrow> string list" where
  "item_strings [] = []"
| "item_strings (JStr s # xs) = s # item_strings xs"
| "item_strings (x # xs) = item_strings xs"

text \<open>
  A field declared \<^verbatim>\<open>Optional[List[str]] = []\<close>: an absent key takes the default,
  \<^verbatim>\<open>null\<close> passes as \<^verbatim>\<open>None\<close>, a list passes when every item is a string.
\<close>

definition field_opt_str_list ::
  "(string \<times> json) list \<Rightarrow> string \<Rightarrow> verror list + string list option" where
  "field_opt_str_list kvs name =
     (case json_get kvs name of
        None \<Rightarrow> Inr (Some [])
      | Some JNull \<Rightarrow> Inr None
      | Some (JArr xs) \<Rightarrow>
          (if item_errors name 0 xs = [] then Inr (Some (item_strings xs))
           else Inl (item_errors name 0 xs))
      | Some _ \<Rightarrow> Inl [([LKey ''body'', LKey name], ''list_type'')])"

fun errors_of :: "verror list + 'a \<Rightarrow> verror list" where
  "errors_of (Inl es) = es"
| "errors_of (Inr _) = []"

text \<open>Validation of the body against the model; the errors of all fields are collected.\<close>

definition validate_CommunityPostIn :: "json \<Rightarrow> verror list + CommunityPostIn" where
  "validate_CommunityPostIn body =
     (case body of
        JObj kvs \<Rightarrow>
          (let t = field_str kvs ''title'';
               c = field_str kvs ''content'';
               a = field_str kvs ''author'';
               g = field_opt_str_list kvs ''tags''
           in case (t, c, a, g) of
                (Inr t', Inr c', Inr a', Inr g') \<Rightarrow>
                  Inr \<lparr>title = t', content = c', author = a', tags = g'\<rparr>
              | _ \<Rightarrow> Inl (errors_of t @ errors_of c @ errors_of a @ errors_of g))
      | _ \<Rightarrow> Inl [([LKey ''body''], ''model_attributes_type'')])"

text \<open>\<^verbatim>\<open>post.model_dump()\<close>: the declared fields in declaration order.\<close>

definition model_dump :: "CommunityPostIn \<Rightarrow> document" where
  "model_dump post =
     [(''title'', PStr (title post)),
      (''content'', PStr (content post)),
      (''author'', PStr (author post)),
      (''tags'', case tags post of None \<Rightarrow> PNone | Some ts \<Rightarrow> PList (map PStr ts))]"

section \<open>The document store adapter\<close>

text \<open>
  \<^verbatim>\<open>main.py\<close> imports \<^verbatim>\<open>create_document\<close> and \<^verbatim>\<open>get_documents\<close> from the module
  \<^verbatim>\<open>database\<close>. The store is a state: the documents of each collection in insertion
  order, each kept with the native identity the store gave it; the next identity the
  store will assign; whether the store is unreachable (and with what message); and the
  list of the adapter calls made so far.
\<close>

datatype store_call =
    CreateDocument string document
  | GetDocuments string document int

datatype storage_error = StorageError string

record store =
  collections :: "string \<Rightarrow> (nat \<times> document) list"
  next_oid :: nat
  outage :: "string option"
  calls :: "store_call list"

definition empty_store :: store where
  "empty_store = \<lparr>collections = (\<lambda>_. []), next_oid = 0, outage = None, calls = []\<rparr>"

text \<open>
  Modelled from the spec: a document as the store returns it, which includes its native
  identity field \<^verbatim>\<open>_id\<close>.
\<close>

definition native_doc :: "nat \<times> document \<Rightarrow> document" where
  "native_doc e = (''_id'', PObjectId (fst e)) # dict_del (snd e) ''_id''"

text \<open>
  Modelled from the spec: \<^verbatim>\<open>create_document\<close> of the module \<^verbatim>\<open>database\<close>, which is
  not among the sources. It inserts the document into the named collection, the store
  assigns a unique identifier, and the identifier is returned in its canonical string
  form; it fails with a \<^verbatim>\<open>StorageError\<close> when the store is unreachable, storing
  nothing.
\<close>

definition create_document ::
  "string \<Rightarrow> document \<Rightarrow> store \<Rightarrow> (storage_error + string) \<times> store" where
  "create_document collection_name doc st =
     (let st1 = st\<lparr>calls := calls st @ [CreateDocument collection_name doc]\<rparr> in
      case outage st of
        Some msg \<Rightarrow> (Inl (StorageError msg), st1)
      | None \<Rightarrow>
          (Inr (py_str (PObjectId (next_oid st))),
           st1\<lparr>collections :=
                  (collections st)
                    (collection_name := collections st collection_name @ [(next_oid st, doc)]),
                next_oid := Suc (next_oid st)\<rparr>))"

text \<open>A filter maps fields to expected values; the empty filter matches every document.\<close>

definition matches :: "document \<Rightarrow> document \<Rightarrow> bool" where
  "matches flt doc = list_all (\<lambda>kv. dict_get doc (fst kv) = Some (snd kv)) flt"

text \<open>
  Modelled from the spec: \<^verbatim>\<open>get_documents\<close> of the module \<^verbatim>\<open>database\<close>, which is not
  among the sources. It returns up to \<^verbatim>\<open>limit\<close> matching documents in the store's
  order, each with its native identity field; it fails with a \<^verbatim>\<open>StorageError\<close> when
  the store is unreachable. The spec gives the limit as a non-negative integer; for a
  negative one nothing is returned here.
\<close>

definition get_documents ::
  "string \<Rightarrow> document \<Rightarrow> int \<Rightarrow> store \<Rightarrow> (storage_error + document list) \<times> store" where
  "get_documents collection_name flt limit st =
     (let st1 = st\<lparr>calls := calls st @ [GetDocuments collection_name flt limit]\<rparr> in
      case outage st of
        Some msg \<Rightarrow> (Inl (StorageError msg), st1)
      | None \<Rightarrow>
          (Inr (take (nat limit)
                  (filter (matches flt) (map native_doc (collections st collection_name)))),
           st1))"

section \<open>The community handlers\<close>

datatype http_error =
    HTTPException int string
  | RequestValidationError "verror list"

fun status_code :: "http_error \<Rightarrow> int" where
  "status_code (HTTPException code detail) = code"
| "status_code (RequestValidationError errs) = 422"

text \<open>
  \<^verbatim>\<open>
  if "_id" in p:
      p["id"] = str(p.pop("_id"))
  \<close>
\<close>

definition stringify_id :: "document \<Rightarrow> document" where
  "stringify_id p =
     (case dict_get p ''_id'' of
        None \<Rightarrow> p
      | Some v \<Rightarrow> dict_set (dict_del p ''_id'') ''id'' (PStr (py_str v)))"

text \<open>
  \<^verbatim>\<open>
  def get_community_posts(limit: int = 20):
      try:
          posts = get_documents("communitypost", {}, limit)
          for p in posts:
              if "_id" in p:
                  p["id"] = str(p.pop("_id"))
          return {"posts": posts}
      except Exception as e:
          raise HTTPException(status_code=500, detail=str(e))
  \<close>
\<close>

definition get_community_posts :: "int \<Rightarrow> store \<Rightarrow> (http_error + document) \<times> store" where
  "get_community_posts limit st =
     (case get_documents ''communitypost'' [] limit st of
        (Inl (StorageError msg), st') \<Rightarrow> (Inl (HTTPException 500 msg), st')
      | (Inr posts, st') \<Rightarrow>
          (Inr [(''posts'', PList (map PDict (map stringify_id posts)))], st'))"

text \<open>
  \<^verbatim>\<open>
  def create_community_post(post: CommunityPostIn):
      try:
          post_id = create_document("communitypost", post.model_dump())
          return {"id": post_id, "status": "created"}
      except Exception as e:
          raise HTTPException(status_code=500, detail=str(e))
  \<close>
\<close>

definition create_community_post ::
  "CommunityPostIn \<Rightarrow> store \<Rightarrow> (http_error + document) \<times> store" where
  "create_community_post post st =
     (case create_document ''communitypost'' (model_dump post) st of
        (Inl (StorageError msg), st') \<Rightarrow> (Inl (HTTPException 500 msg), st')
      | (Inr post_id, st') \<Rightarrow>
          (Inr [(''id'', PStr post_id), (''status'', PStr ''created'')], st'))"

text \<open>
  The route \<^verbatim>\<open>POST /api/community/posts\<close>: the body is validated against the
  parameter's model before the handler body runs; a body that fails is answered with
  status 422 and the handler is not entered.
\<close>

definition post_community_posts :: "json \<Rightarrow> store \<Rightarrow> (http_error + document) \<times> store" where
  "post_community_posts body st =
     (case validate_CommunityPostIn body of
        Inl errs \<Rightarrow> (Inl (RequestValidationError errs), st)
      | Inr post \<Rightarrow> create_community_post post st)"

text \<open>The posts of a list response (none when the response is an error).\<close>

definition listed_posts :: "http_error + document \<Rightarrow> pyval list" where
  "listed_posts r =
     (case r of
        Inr resp \<Rightarrow> (case dict_get resp ''posts'' of Some (PList ps) \<Rightarrow> ps | _ \<Rightarrow> [])
      | Inl _ \<Rightarrow> [])"

section \<open>The nutrition estimate\<close>

definition db_map :: "(string \<times> int) list" where
  "db_map =
     [(''banana'', 105), (''apple'', 95), (''egg'', 78), (''eggs'', 156), (''bread'', 80),
      (''rice'', 200), (''salad'', 120), (''chicken'', 220), (''yogurt'', 150),
      (''coffee'', 5), (''latte'', 190), (''orange'', 62), (''oats'', 150)]"

text \<open>
  \<^verbatim>\<open>str.lower\<close> on the letters A to Z; the other bytes are left as they are (the
  lowering of letters outside ASCII is not modelled).
\<close>

definition lower_char :: "char \<Rightarrow> char" where
  "lower_char c =
     (let n = (of_char c :: nat) in if 65 \<le> n \<and> n \<le> 90 then char_of (n + 32) else c)"

definition lower :: "string \<Rightarrow> string" where
  "lower s = map lower_char s"

record hit =
  item :: string
  calories :: int

text \<open>
  The two confidence values are the decimal numbers the source writes
  (\<^verbatim>\<open>0.5\<close> and \<^verbatim>\<open>0.2\<close>).
\<close>

record nutrition_result =
  estimated_calories :: int
  items :: "hit list"
  confidence :: real

text \<open>
  \<^verbatim>\<open>
  for k, v in db_map.items():
      if k in text:
          total += v
          hits.append({"item": k, "calories": v})
  \<close>
  The operator \<^verbatim>\<open>in\<close> on two strings is the substring test.
\<close>

fun scan_table :: "(string \<times> int) list \<Rightarrow> string \<Rightarrow> int \<Rightarrow> hit list \<Rightarrow> int \<times> hit list" where
  "scan_table [] txt tot hits = (tot, hits)"
| "scan_table ((k, v) # rest) txt tot hits =
     (if sublist k txt
      then scan_table rest txt (tot + v) (hits @ [\<lparr>item = k, calories = v\<rparr>])
      else scan_table rest txt tot hits)"

text \<open>The entry \<^verbatim>\<open>{"item": k, "calories": v}\<close> appended for a table row.\<close>

definition mk_hit :: "string \<times> int \<Rightarrow> hit" where
  "mk_hit kv = \<lparr>item = fst kv, calories = snd kv\<rparr>"

definition nutrition_estimate :: "string \<Rightarrow> nutrition_result" where
  "nutrition_estimate inp_text =
     (let txt = lower inp_text;
          (tot, hits) = scan_table db_map txt 0 []
      in \<lparr>estimated_calories = tot, items = hits,
          confidence = (if hits \<noteq> [] then 0.5 else 0.2)\<rparr>)"


section \<open>Predicates and inputs used in the statements\<close>

text \<open>
  A listed post as a caller must see it: a dictionary whose \<^verbatim>\<open>id\<close> is a string and
  which has no \<^verbatim>\<open>_id\<close> key.
\<close>

definition public_post :: "pyval \<Rightarrow> bool" where
  "public_post p =
     (case p of
        PDict d \<Rightarrow>
          (case dict_get d ''id'' of Some (PStr s) \<Rightarrow> True | _ \<Rightarrow> False) \<and> \<not> has_key d ''_id''
      | _ \<Rightarrow> False)"

definition has_likes :: "pyval \<Rightarrow> bool" where
  "has_likes p = (case p of PDict d \<Rightarrow> has_key d ''likes'' | _ \<Rightarrow> False)"

text \<open>The body \<^verbatim>\<open>{"title":"Hello","content":"First post","author":"alice"}\<close>.\<close>

definition hello_fields :: "(string \<times> json) list" where
  "hello_fields =
     [(''title'', JStr ''Hello''), (''content'', JStr ''First post''), (''author'', JStr ''alice'')]"

definition hello_body :: json where
  "hello_body = JObj hello_fields"

definition hello_post :: CommunityPostIn where
  "hello_post = \<lparr>title = ''Hello'', content = ''First post'', author = ''alice'', tags = Some []\<rparr>"

text \<open>The store after the body above was posted twice to the empty store.\<close>

definition two_posts_store :: store where
  "two_posts_store =
     snd (post_community_posts hello_body (snd (post_community_posts hello_body empty_store)))"

text \<open>A body whose \<^verbatim>\<open>title\<close> and \<^verbatim>\<open>content\<close> are the empty string.\<close>

definition blank_fields :: "(string \<times> json) list" where
  "blank_fields = [(''title'', JStr ''''), (''content'', JStr ''''), (''author'', JStr ''alice'')]"

text \<open>A body whose \<^verbatim>\<open>tags\<close> is \<^verbatim>\<open>null\<close>.\<close>

definition null_tags_fields :: "(string \<times> json) list" where
  "null_tags_fields =
     [(''title'', JStr ''Hello''), (''content'', JStr ''First post''), (''author'', JStr ''alice''),
      (''tags'', JNull)]"

text \<open>A body whose \<^verbatim>\<open>title\<close> is a number.\<close>

definition untyped_title_fields :: "(string \<times> json) list" where
  "untyped_title_fields =
     [(''title'', JNum 5), (''content'', JStr ''First post''), (''author'', JStr ''alice'')]"

text \<open>The empty store while it is unreachable.\<close>

definition down_store :: store where
  "down_store = empty_store\<lparr>outage := Some ''connection refused''\<rparr>"

section \<open>Properties of the community handlers\<close>

subsection \<open>The adapter and the dictionary operations\<close>

lemma create_document_ok:
  "outage st = None \<Longrightarrow> create_document n doc st =
     (Inr (oid_str (next_oid st)),
      st\<lparr>calls := calls st @ [CreateDocument n doc],
         collections := (collections st)(n := collections st n @ [(next_oid st, doc)]),
         next_oid := Suc (next_oid st)\<rparr>)"
  by (simp add: create_document_def py_str_def)

lemma create_document_fail:
  "outage st = Some msg \<Longrightarrow> create_document n doc st =
     (Inl (StorageError msg), st\<lparr>calls := calls st @ [CreateDocument n doc]\<rparr>)"
  by (simp add: create_document_def)

lemma get_documents_ok:
  "outage st = None \<Longrightarrow> get_documents n [] limit st =
     (Inr (take (nat limit) (map native_doc (collections st n))),
      st\<lparr>calls := calls st @ [GetDocuments n [] limit]\<rparr>)"
  by (simp add: get_documents_def matches_def)

lemma get_documents_fail:
  "outage st = Some msg \<Longrightarrow> get_documents n flt limit st =
     (Inl (StorageError msg), st\<lparr>calls := calls st @ [GetDocuments n flt limit]\<rparr>)"
  by (simp add: get_documents_def)

lemma has_key_dict_get: "has_key d k \<longleftrightarrow> dict_get d k \<noteq> None"
  by (simp add: has_key_def dict_get_def map_of_eq_None_iff)

lemma keys_dict_set: "set (map fst (dict_set d k v)) = insert k (set (map fst d))"
proof (induction d)
  case Nil
  show ?case by simp
next
  case (Cons a d)
  then show ?case by (cases a) (simp add: insert_commute)
qed

lemma dict_get_dict_set: "dict_get (dict_set d k v) k' = (if k' = k then Some v else dict_get d k')"
  by (induction d) (auto simp: dict_get_def)

lemma keys_dict_del: "set (map fst (dict_del d k)) = set (map fst d) - {k}"
  by (auto simp: dict_del_def)

lemma dict_set_fresh: "k \<notin> set (map fst d) \<Longrightarrow> dict_set d k v = d @ [(k, v)]"
  by (induction d) auto

lemma stringify_id_no_native: "\<not> has_key (stringify_id d) ''_id''"
proof (cases "dict_get d ''_id''")
  case None
  then have "stringify_id d = d" by (simp add: stringify_id_def)
  moreover from None have "\<not> has_key d ''_id''" by (simp add: has_key_dict_get)
  ultimately show ?thesis by simp
next
  case (Some v)
  have "''_id'' \<notin> set (map fst (dict_set (dict_del d ''_id'') ''id'' (PStr (py_str v))))"
    unfolding keys_dict_set keys_dict_del by simp
  with Some show ?thesis by (simp add: stringify_id_def has_key_def)
qed

lemma stringify_id_has_id:
  "dict_get d ''_id'' = Some v \<Longrightarrow> dict_get (stringify_id d) ''id'' = Some (PStr (py_str v))"
  by (simp add: stringify_id_def dict_get_dict_set)

lemma stringify_native_doc:
  "stringify_id (native_doc e) = dict_set (dict_del (snd e) ''_id'') ''id'' (PStr (oid_str (fst e)))"
  by (simp add: stringify_id_def native_doc_def dict_get_def dict_del_def py_str_def)

lemma native_doc_id: "dict_get (native_doc e) ''_id'' = Some (PObjectId (fst e))"
  by (simp add: native_doc_def dict_get_def)

lemma public_post_stringify: "public_post (PDict (stringify_id (native_doc e)))"
  by (simp add: public_post_def stringify_id_no_native stringify_id_has_id [OF native_doc_id])

lemma model_dump_keys: "map fst (model_dump post) = [''title'', ''content'', ''author'', ''tags'']"
  by (simp add: model_dump_def)

lemma stringify_dump:
  "stringify_id (native_doc (n, model_dump post)) = model_dump post @ [(''id'', PStr (oid_str n))]"
proof -
  have a: "dict_del (model_dump post) ''_id'' = model_dump post"
    by (simp add: dict_del_def model_dump_def)
  have "''id'' \<notin> set (map fst (model_dump post))"
    by (simp add: model_dump_keys)
  then show ?thesis
    by (simp add: stringify_native_doc a dict_set_fresh)
qed

lemma oid_str_0: "oid_str 0 = ''000000000000000000000000''"
  by code_simp

subsection \<open>The handlers on a reachable and on an unreachable store\<close>

lemma get_community_posts_ok:
  "outage st = None \<Longrightarrow> get_community_posts limit st =
     (Inr [(''posts'', PList (map PDict (map stringify_id
              (take (nat limit) (map native_doc (collections st ''communitypost''))))))],
      st\<lparr>calls := calls st @ [GetDocuments ''communitypost'' [] limit]\<rparr>)"
  by (simp add: get_community_posts_def get_documents_ok)

lemma get_community_posts_fail:
  "outage st = Some msg \<Longrightarrow> get_community_posts limit st =
     (Inl (HTTPException 500 msg),
      st\<lparr>calls := calls st @ [GetDocuments ''communitypost'' [] limit]\<rparr>)"
  by (simp add: get_community_posts_def get_documents_fail)

lemma create_community_post_ok:
  "outage st = None \<Longrightarrow> create_community_post post st =
     (Inr [(''id'', PStr (oid_str (next_oid st))), (''status'', PStr ''created'')],
      st\<lparr>calls := calls st @ [CreateDocument ''communitypost'' (model_dump post)],
         collections := (collections st)(''communitypost'' :=
            collections st ''communitypost'' @ [(next_oid st, model_dump post)]),
         next_oid := Suc (next_oid st)\<rparr>)"
  by (simp add: create_community_post_def create_document_ok)

lemma create_community_post_fail:
  "outage st = Some msg \<Longrightarrow> create_community_post post st =
     (Inl (HTTPException 500 msg),
      st\<lparr>calls := calls st @ [CreateDocument ''communitypost'' (model_dump post)]\<rparr>)"
  by (simp add: create_community_post_def create_document_fail)

lemma listed_posts_ok:
  "outage st = None \<Longrightarrow> listed_posts (fst (get_community_posts limit st)) =
     map PDict (map stringify_id (take (nat limit) (map native_doc (collections st ''communitypost''))))"
  by (simp add: get_community_posts_ok listed_posts_def dict_get_def)

lemma listed_posts_fail:
  "outage st = Some msg \<Longrightarrow> listed_posts (fst (get_community_posts limit st)) = []"
  by (simp add: get_community_posts_fail listed_posts_def)

subsection \<open>Validation\<close>

lemma validate_fields:
  assumes "json_get kvs ''title'' = Some (JStr t)"
      and "json_get kvs ''content'' = Some (JStr c)"
      and "json_get kvs ''author'' = Some (JStr a)"
      and "field_opt_str_list kvs ''tags'' = Inr g"
  shows "validate_CommunityPostIn (JObj kvs) =
           Inr \<lparr>title = t, content = c, author = a, tags = g\<rparr>"
  using assms by (simp add: validate_CommunityPostIn_def field_str_def)

lemma validate_Inr_fields:
  assumes "validate_CommunityPostIn (JObj kvs) = Inr post"
  shows "field_str kvs ''title'' = Inr (title post)
       \<and> field_str kvs ''content'' = Inr (content post)
       \<and> field_str kvs ''author'' = Inr (author post)
       \<and> field_opt_str_list kvs ''tags'' = Inr (tags post)"
  using assms
  by (auto simp: validate_CommunityPostIn_def Let_def split: sum.splits)

lemma field_str_missing:
  "json_get kvs k = None \<Longrightarrow> field_str kvs k = Inl [([LKey ''body'', LKey k], ''missing'')]"
  by (simp add: field_str_def)

lemma field_str_isl:
  assumes "\<forall>s. json_get kvs k \<noteq> Some (JStr s)"
  shows "isl (field_str kvs k)"
proof (cases "json_get kvs k")
  case None
  then show ?thesis by (simp add: field_str_def)
next
  case (Some v)
  with assms show ?thesis by (cases v) (simp_all add: field_str_def)
qed

lemma validate_errors:
  assumes "isl (field_str kvs ''title'') \<or> isl (field_str kvs ''content'')
         \<or> isl (field_str kvs ''author'')"
  shows "validate_CommunityPostIn (JObj kvs) =
      Inl (errors_of (field_str kvs ''title'') @ errors_of (field_str kvs ''content'')
         @ errors_of (field_str kvs ''author'') @ errors_of (field_opt_str_list kvs ''tags''))"
  using assms
  by (auto simp: validate_CommunityPostIn_def Let_def split: sum.splits)

lemma post_calls:
  "validate_CommunityPostIn body = Inr post \<Longrightarrow>
   calls (snd (post_community_posts body st)) =
     calls st @ [CreateDocument ''communitypost'' (model_dump post)]"
  by (cases "outage st")
     (auto simp: post_community_posts_def create_community_post_ok create_community_post_fail)

lemma hello_valid:
  "validate_CommunityPostIn hello_body = Inr hello_post"
  by (simp add: hello_body_def hello_fields_def hello_post_def validate_CommunityPostIn_def
      field_str_def field_opt_str_list_def json_get_def)

lemma hello_tags: "json_get hello_fields ''tags'' = None"
  by (simp add: hello_fields_def json_get_def)

lemma hello_created:
  "post_community_posts hello_body empty_store =
     (Inr [(''id'', PStr ''000000000000000000000000''), (''status'', PStr ''created'')],
      \<lparr>collections = (\<lambda>_. [])(''communitypost'' :=
           [(0, [(''title'', PStr ''Hello''), (''content'', PStr ''First post''),
                 (''author'', PStr ''alice''), (''tags'', PList [])])]),
       next_oid = 1, outage = None,
       calls = [CreateDocument ''communitypost''
          [(''title'', PStr ''Hello''), (''content'', PStr ''First post''),
           (''author'', PStr ''alice''), (''tags'', PList [])]]\<rparr>)"
  by (simp add: post_community_posts_def hello_valid create_community_post_ok empty_store_def
      oid_str_0 model_dump_def hello_post_def)

lemma two_posts_store_eq:
  "two_posts_store =
    \<lparr>collections = (\<lambda>_. [])(''communitypost'' :=
        [(0, model_dump hello_post), (1, model_dump hello_post)]),
     next_oid = 2, outage = None,
     calls = [CreateDocument ''communitypost'' (model_dump hello_post),
              CreateDocument ''communitypost'' (model_dump hello_post)]\<rparr>"
  by (simp add: two_posts_store_def post_community_posts_def hello_valid create_community_post_ok
      empty_store_def)

subsection \<open>The create and list contract\<close>

text \<open>
  Claim C1, as amended. After the body
  \<^verbatim>\<open>{"title":"Hello","content":"First post","author":"alice"}\<close> is posted to the empty
  store, the response carries the identifier the store assigned, and listing with limit 1
  returns exactly one post: title, content and author as sent, \<^verbatim>\<open>tags\<close> the empty list
  and \<^verbatim>\<open>id\<close> the same string that the create response carried. The post has no
  \<^verbatim>\<open>likes\<close> field: \<^verbatim>\<open>CommunityPostIn\<close> declares none and no handler adds one.
\<close>

theorem hello_post_listed_without_likes:
  "fst (post_community_posts hello_body empty_store) =
     Inr [(''id'', PStr ''000000000000000000000000''), (''status'', PStr ''created'')]
   \<and> listed_posts (fst (get_community_posts 1 (snd (post_community_posts hello_body empty_store)))) =
     [PDict [(''title'', PStr ''Hello''), (''content'', PStr ''First post''),
             (''author'', PStr ''alice''), (''tags'', PList []),
             (''id'', PStr ''000000000000000000000000'')]]"
  by (simp add: hello_created listed_posts_ok stringify_native_doc dict_del_def oid_str_0)

text \<open>
  Claim C1 as stated fails: the single post listed after the scenario has no
  \<^verbatim>\<open>likes\<close> key, so it is not the dictionary with \<^verbatim>\<open>"likes": 0\<close>.
\<close>

theorem hello_post_has_no_likes_field:
  "map has_likes
     (listed_posts (fst (get_community_posts 1 (snd (post_community_posts hello_body empty_store)))))
   = [False]"
  by (simp add: hello_created listed_posts_ok stringify_native_doc dict_del_def oid_str_0
      has_likes_def has_key_def)

text \<open>
  Claim C2. Whatever the store holds and whatever the limit, every post of the list
  response is a dictionary whose \<^verbatim>\<open>id\<close> is a string and in which the key \<^verbatim>\<open>_id\<close> does
  not occur.
\<close>

theorem listed_posts_have_id_and_no_native_id:
  "list_all public_post (listed_posts (fst (get_community_posts limit st)))"
proof (cases "outage st")
  case None
  have "\<And>p. p \<in> set (listed_posts (fst (get_community_posts limit st))) \<Longrightarrow> public_post p"
  proof -
    fix p assume "p \<in> set (listed_posts (fst (get_community_posts limit st)))"
    then obtain x where x: "x \<in> set (take (nat limit) (map native_doc (collections st ''communitypost'')))"
        and p: "p = PDict (stringify_id x)"
      unfolding listed_posts_ok [OF None] by auto
    from x have "x \<in> set (map native_doc (collections st ''communitypost''))"
      by (rule in_set_takeD)
    then obtain e where "x = native_doc e" by auto
    with p show "public_post p" by (simp add: public_post_stringify)
  qed
  then show ?thesis by (simp add: list_all_iff)
next
  case (Some msg)
  then show ?thesis by (simp add: listed_posts_fail)
qed

text \<open>
  Claim C3. For a valid body posted to a reachable store, the identifier in the create
  response is the \<^verbatim>\<open>id\<close> of the post that a later list call returns for the new
  document (the one after the documents already stored), whose other fields are the
  dumped model. The limit has to reach the new document.
\<close>

theorem created_id_round_trip:
  assumes "outage st = None"
      and "validate_CommunityPostIn body = Inr post"
      and "int (length (collections st ''communitypost'')) < limit"
  shows "\<exists>pid st1.
           post_community_posts body st =
             (Inr [(''id'', PStr pid), (''status'', PStr ''created'')], st1)
         \<and> listed_posts (fst (get_community_posts limit st1))
             ! length (collections st ''communitypost'')
           = PDict (model_dump post @ [(''id'', PStr pid)])"
proof -
  let ?n = "length (collections st ''communitypost'')"
  let ?st1 = "st\<lparr>calls := calls st @ [CreateDocument ''communitypost'' (model_dump post)],
         collections := (collections st)(''communitypost'' :=
            collections st ''communitypost'' @ [(next_oid st, model_dump post)]),
         next_oid := Suc (next_oid st)\<rparr>"
  have c: "post_community_posts body st =
      (Inr [(''id'', PStr (oid_str (next_oid st))), (''status'', PStr ''created'')], ?st1)"
    using assms(1,2) by (simp add: post_community_posts_def create_community_post_ok)
  have o: "outage ?st1 = None" using assms(1) by simp
  have lt: "?n < nat limit" using assms(3) by simp
  have "listed_posts (fst (get_community_posts limit ?st1)) ! ?n
      = PDict (stringify_id (native_doc (next_oid st, model_dump post)))"
    unfolding listed_posts_ok [OF o] using lt by (simp add: nth_append)
  then have "listed_posts (fst (get_community_posts limit ?st1)) ! ?n
      = PDict (model_dump post @ [(''id'', PStr (oid_str (next_oid st)))])"
    by (simp add: stringify_dump)
  with c show ?thesis by blast
qed

theorem created_id_round_trip_witness:
  "outage empty_store = None
   \<and> validate_CommunityPostIn hello_body = Inr hello_post
   \<and> int (length (collections empty_store ''communitypost'')) < 1
   \<and> (\<exists>pid st1.
         post_community_posts hello_body empty_store =
           (Inr [(''id'', PStr pid), (''status'', PStr ''created'')], st1)
       \<and> listed_posts (fst (get_community_posts 1 st1))
           ! length (collections empty_store ''communitypost'')
         = PDict (model_dump hello_post @ [(''id'', PStr pid)]))"
proof -
  have h1: "outage empty_store = None" by (simp add: empty_store_def)
  have h3: "int (length (collections empty_store ''communitypost'')) < 1"
    by (simp add: empty_store_def)
  show ?thesis
    by (rule conjI [OF h1 conjI [OF hello_valid conjI [OF h3
          created_id_round_trip [OF h1 hello_valid h3]]]])
qed

text \<open>
  Claim C4. For a non-negative limit \<open>N\<close> and any store, the list response has at most
  \<open>N\<close> posts, and with limit 0 it has none.
\<close>

theorem list_posts_at_most_limit:
  assumes "0 \<le> N"
  shows "int (length (listed_posts (fst (get_community_posts N st)))) \<le> N
       \<and> listed_posts (fst (get_community_posts 0 st)) = []"
proof (cases "outage st")
  case None
  with assms show ?thesis by (simp add: listed_posts_ok)
next
  case (Some msg)
  with assms show ?thesis by (simp add: listed_posts_fail)
qed

theorem list_posts_at_most_limit_witness:
  "(0::int) \<le> 1
   \<and> length (collections two_posts_store ''communitypost'') = 2
   \<and> length (listed_posts (fst (get_community_posts 1 two_posts_store))) = 1
   \<and> int (length (listed_posts (fst (get_community_posts 1 two_posts_store)))) \<le> 1
   \<and> listed_posts (fst (get_community_posts 0 two_posts_store)) = []"
proof -
  have h: "(0::int) \<le> 1" by simp
  have a: "length (collections two_posts_store ''communitypost'') = 2"
    by (simp add: two_posts_store_eq)
  have b: "length (listed_posts (fst (get_community_posts 1 two_posts_store))) = 1"
    by (simp add: two_posts_store_eq listed_posts_ok)
  from list_posts_at_most_limit [OF h, of two_posts_store] h a b show ?thesis
    by simp
qed

text \<open>
  Claim C5, as amended. A body whose \<^verbatim>\<open>title\<close>, \<^verbatim>\<open>content\<close> and \<^verbatim>\<open>author\<close> are JSON
  strings, empty or not, and whose \<^verbatim>\<open>tags\<close> pass, is valid; on a reachable store it is
  stored with the texts as sent and answered with status \<^verbatim>\<open>created\<close>. A body whose
  \<^verbatim>\<open>title\<close> or \<^verbatim>\<open>content\<close> is absent or not a string is rejected with a validation error
  and the store is left as it was: the two fields are required to be text, not
  non-empty text.
\<close>

theorem text_fields_may_be_empty:
  "(json_get kvs ''title'' = Some (JStr t) \<and> json_get kvs ''content'' = Some (JStr c)
      \<and> json_get kvs ''author'' = Some (JStr a) \<and> field_opt_str_list kvs ''tags'' = Inr g
     \<longrightarrow> validate_CommunityPostIn (JObj kvs) =
           Inr \<lparr>title = t, content = c, author = a, tags = g\<rparr>
         \<and> (outage st = None \<longrightarrow>
              fst (post_community_posts (JObj kvs) st) =
                Inr [(''id'', PStr (oid_str (next_oid st))), (''status'', PStr ''created'')]
            \<and> collections (snd (post_community_posts (JObj kvs) st)) ''communitypost'' =
                collections st ''communitypost'' @
                  [(next_oid st,
                    model_dump \<lparr>title = t, content = c, author = a, tags = g\<rparr>)]))
   \<and> ((k = ''title'' \<or> k = ''content'') \<and> (\<forall>s. json_get kvs' k \<noteq> Some (JStr s))
     \<longrightarrow> (\<exists>errs. post_community_posts (JObj kvs') st' =
                  (Inl (RequestValidationError errs), st')))"
proof (intro conjI impI)
  assume h: "json_get kvs ''title'' = Some (JStr t) \<and> json_get kvs ''content'' = Some (JStr c)
      \<and> json_get kvs ''author'' = Some (JStr a) \<and> field_opt_str_list kvs ''tags'' = Inr g"
  then show v: "validate_CommunityPostIn (JObj kvs) =
           Inr \<lparr>title = t, content = c, author = a, tags = g\<rparr>"
    by (simp add: validate_fields)
  assume o: "outage st = None"
  show "fst (post_community_posts (JObj kvs) st) =
      Inr [(''id'', PStr (oid_str (next_oid st))), (''status'', PStr ''created'')]"
    by (simp add: post_community_posts_def v create_community_post_ok o)
  show "collections (snd (post_community_posts (JObj kvs) st)) ''communitypost'' =
      collections st ''communitypost'' @
        [(next_oid st, model_dump \<lparr>title = t, content = c, author = a, tags = g\<rparr>)]"
    by (simp add: post_community_posts_def v create_community_post_ok o)
next
  assume h: "(k = ''title'' \<or> k = ''content'') \<and> (\<forall>s. json_get kvs' k \<noteq> Some (JStr s))"
  then have "isl (field_str kvs' k)"
    by (simp add: field_str_isl)
  with h have "isl (field_str kvs' ''title'') \<or> isl (field_str kvs' ''content'')
         \<or> isl (field_str kvs' ''author'')"
    by (elim conjE disjE) simp_all
  then have "validate_CommunityPostIn (JObj kvs') =
      Inl (errors_of (field_str kvs' ''title'') @ errors_of (field_str kvs' ''content'')
         @ errors_of (field_str kvs' ''author'') @ errors_of (field_opt_str_list kvs' ''tags''))"
    by (rule validate_errors)
  then show "\<exists>errs. post_community_posts (JObj kvs') st' =
                  (Inl (RequestValidationError errs), st')"
    by (simp add: post_community_posts_def)
qed

theorem text_fields_may_be_empty_witness:
  "json_get blank_fields ''title'' = Some (JStr [])
   \<and> json_get blank_fields ''content'' = Some (JStr [])
   \<and> json_get blank_fields ''author'' = Some (JStr ''alice'')
   \<and> field_opt_str_list blank_fields ''tags'' = Inr (Some [])
   \<and> outage empty_store = None
   \<and> validate_CommunityPostIn (JObj blank_fields) =
        Inr \<lparr>title = [], content = [], author = ''alice'', tags = Some []\<rparr>
   \<and> fst (post_community_posts (JObj blank_fields) empty_store) =
        Inr [(''id'', PStr (oid_str (next_oid empty_store))), (''status'', PStr ''created'')]
   \<and> (\<forall>s. json_get untyped_title_fields ''title'' \<noteq> Some (JStr s))
   \<and> (\<exists>errs. post_community_posts (JObj untyped_title_fields) empty_store =
                  (Inl (RequestValidationError errs), empty_store))"
proof -
  have h1: "json_get blank_fields ''title'' = Some (JStr [])"
    by (simp add: blank_fields_def json_get_def)
  have h2: "json_get blank_fields ''content'' = Some (JStr [])"
    by (simp add: blank_fields_def json_get_def)
  have h3: "json_get blank_fields ''author'' = Some (JStr ''alice'')"
    by (simp add: blank_fields_def json_get_def)
  have h4: "field_opt_str_list blank_fields ''tags'' = Inr (Some [])"
    by (simp add: blank_fields_def json_get_def field_opt_str_list_def)
  have h5: "outage empty_store = None"
    by (simp add: empty_store_def)
  have h6: "\<forall>s. json_get untyped_title_fields ''title'' \<noteq> Some (JStr s)"
    by (simp add: untyped_title_fields_def json_get_def)
  from text_fields_may_be_empty [of blank_fields "[]" "[]" "''alice''" "Some []" empty_store
            "''title''" untyped_title_fields empty_store]
    h1 h2 h3 h4 h5 h6
  show ?thesis by simp
qed

text \<open>
  Claim C5 as stated fails: a body with the empty string as \<^verbatim>\<open>title\<close> and as
  \<^verbatim>\<open>content\<close> is accepted and stored.
\<close>

theorem blank_title_and_content_accepted:
  "fst (post_community_posts (JObj blank_fields) empty_store) =
     Inr [(''id'', PStr ''000000000000000000000000''), (''status'', PStr ''created'')]
   \<and> collections (snd (post_community_posts (JObj blank_fields) empty_store)) ''communitypost'' =
     [(0, [(''title'', PStr []), (''content'', PStr []), (''author'', PStr ''alice''),
           (''tags'', PList [])])]"
proof -
  have v: "validate_CommunityPostIn (JObj blank_fields) =
      Inr \<lparr>title = [], content = [], author = ''alice'', tags = Some []\<rparr>"
    by (simp add: blank_fields_def validate_CommunityPostIn_def field_str_def
        field_opt_str_list_def json_get_def)
  show ?thesis
    by (simp add: post_community_posts_def v create_community_post_ok empty_store_def
        oid_str_0 model_dump_def)
qed

text \<open>
  Claim C6. For a valid body without the key \<^verbatim>\<open>tags\<close>, the document handed to
  \<^verbatim>\<open>create_document\<close> has \<^verbatim>\<open>tags\<close> equal to the empty list, and on a reachable store
  the request succeeds and that document is what the collection gains.
\<close>

theorem omitted_tags_stored_as_empty:
  assumes "validate_CommunityPostIn (JObj kvs) = Inr post"
      and "json_get kvs ''tags'' = None"
  shows "dict_get (model_dump post) ''tags'' = Some (PList [])
       \<and> calls (snd (post_community_posts (JObj kvs) st)) =
           calls st @ [CreateDocument ''communitypost'' (model_dump post)]
       \<and> (outage st = None \<longrightarrow>
            fst (post_community_posts (JObj kvs) st) =
              Inr [(''id'', PStr (oid_str (next_oid st))), (''status'', PStr ''created'')]
          \<and> collections (snd (post_community_posts (JObj kvs) st)) ''communitypost'' =
              collections st ''communitypost'' @ [(next_oid st, model_dump post)])"
proof -
  from assms(2) have "field_opt_str_list kvs ''tags'' = Inr (Some [])"
    by (simp add: field_opt_str_list_def)
  with validate_Inr_fields [OF assms(1)] have "tags post = Some []" by simp
  then have a: "dict_get (model_dump post) ''tags'' = Some (PList [])"
    by (simp add: model_dump_def dict_get_def)
  show ?thesis
    using a post_calls [OF assms(1)]
    by (auto simp: post_community_posts_def assms(1) create_community_post_ok)
qed

theorem omitted_tags_stored_as_empty_witness:
  "validate_CommunityPostIn (JObj hello_fields) = Inr hello_post
   \<and> json_get hello_fields ''tags'' = None
   \<and> outage empty_store = None
   \<and> dict_get (model_dump hello_post) ''tags'' = Some (PList [])
   \<and> fst (post_community_posts (JObj hello_fields) empty_store) =
        Inr [(''id'', PStr (oid_str (next_oid empty_store))), (''status'', PStr ''created'')]"
proof -
  have h1: "validate_CommunityPostIn (JObj hello_fields) = Inr hello_post"
    using hello_valid by (simp add: hello_body_def)
  have h3: "outage empty_store = None" by (simp add: empty_store_def)
  from omitted_tags_stored_as_empty [OF h1 hello_tags, of empty_store] h1 hello_tags h3
  show ?thesis by simp
qed

text \<open>
  Claim C7. A body that lacks \<^verbatim>\<open>title\<close>, \<^verbatim>\<open>content\<close> or \<^verbatim>\<open>author\<close> is answered with a
  validation error that reports each missing field, and the store state after the
  request is the state before it: no adapter call was recorded and no collection
  changed.
\<close>

theorem missing_required_field_rejected_before_store:
  assumes "json_get kvs ''title'' = None \<or> json_get kvs ''content'' = None
         \<or> json_get kvs ''author'' = None"
  shows "\<exists>errs. post_community_posts (JObj kvs) st = (Inl (RequestValidationError errs), st)
          \<and> (json_get kvs ''title'' = None \<longrightarrow> ([LKey ''body'', LKey ''title''], ''missing'') \<in> set errs)
          \<and> (json_get kvs ''content'' = None \<longrightarrow> ([LKey ''body'', LKey ''content''], ''missing'') \<in> set errs)
          \<and> (json_get kvs ''author'' = None \<longrightarrow> ([LKey ''body'', LKey ''author''], ''missing'') \<in> set errs)"
proof -
  let ?errs = "errors_of (field_str kvs ''title'') @ errors_of (field_str kvs ''content'')
         @ errors_of (field_str kvs ''author'') @ errors_of (field_opt_str_list kvs ''tags'')"
  from assms have "isl (field_str kvs ''title'') \<or> isl (field_str kvs ''content'')
         \<or> isl (field_str kvs ''author'')"
  proof (elim disjE)
    assume "json_get kvs ''title'' = None"
    then show ?thesis by (simp add: field_str_missing)
  next
    assume "json_get kvs ''content'' = None"
    then show ?thesis by (simp add: field_str_missing)
  next
    assume "json_get kvs ''author'' = None"
    then show ?thesis by (simp add: field_str_missing)
  qed
  then have v: "validate_CommunityPostIn (JObj kvs) = Inl ?errs"
    by (rule validate_errors)
  have r: "post_community_posts (JObj kvs) st = (Inl (RequestValidationError ?errs), st)"
    by (simp only: post_community_posts_def v sum.case)
  have m1: "json_get kvs ''title'' = None \<longrightarrow> ([LKey ''body'', LKey ''title''], ''missing'') \<in> set ?errs"
    by (simp add: field_str_missing)
  have m2: "json_get kvs ''content'' = None \<longrightarrow> ([LKey ''body'', LKey ''content''], ''missing'') \<in> set ?errs"
    by (simp add: field_str_missing)
  have m3: "json_get kvs ''author'' = None \<longrightarrow> ([LKey ''body'', LKey ''author''], ''missing'') \<in> set ?errs"
    by (simp add: field_str_missing)
  show ?thesis
    by (rule exI [of _ ?errs]) (intro conjI r m1 m2 m3)
qed

theorem missing_required_field_rejected_before_store_witness:
  "(json_get [(''title'', JStr ''Hello'')] ''title'' = None
      \<or> json_get [(''title'', JStr ''Hello'')] ''content'' = None
      \<or> json_get [(''title'', JStr ''Hello'')] ''author'' = None)
   \<and> (\<exists>errs. post_community_posts (JObj [(''title'', JStr ''Hello'')]) two_posts_store =
          (Inl (RequestValidationError errs), two_posts_store)
        \<and> ([LKey ''body'', LKey ''content''], ''missing'') \<in> set errs
        \<and> ([LKey ''body'', LKey ''author''], ''missing'') \<in> set errs)"
proof -
  have c: "json_get [(''title'', JStr ''Hello'')] ''content'' = None"
    by (simp add: json_get_def)
  have a: "json_get [(''title'', JStr ''Hello'')] ''author'' = None"
    by (simp add: json_get_def)
  have h: "json_get [(''title'', JStr ''Hello'')] ''title'' = None
      \<or> json_get [(''title'', JStr ''Hello'')] ''content'' = None
      \<or> json_get [(''title'', JStr ''Hello'')] ''author'' = None"
    using c by simp
  from missing_required_field_rejected_before_store [OF h, of two_posts_store]
  obtain errs where e: "post_community_posts (JObj [(''title'', JStr ''Hello'')]) two_posts_store =
          (Inl (RequestValidationError errs), two_posts_store)"
     and ec: "json_get [(''title'', JStr ''Hello'')] ''content'' = None \<longrightarrow>
          ([LKey ''body'', LKey ''content''], ''missing'') \<in> set errs"
     and ea: "json_get [(''title'', JStr ''Hello'')] ''author'' = None \<longrightarrow>
          ([LKey ''body'', LKey ''author''], ''missing'') \<in> set errs"
    by (elim exE conjE)
  from ec c have ec': "([LKey ''body'', LKey ''content''], ''missing'') \<in> set errs" by (rule mp)
  from ea a have ea': "([LKey ''body'', LKey ''author''], ''missing'') \<in> set errs" by (rule mp)
  have "\<exists>errs. post_community_posts (JObj [(''title'', JStr ''Hello'')]) two_posts_store =
          (Inl (RequestValidationError errs), two_posts_store)
        \<and> ([LKey ''body'', LKey ''content''], ''missing'') \<in> set errs
        \<and> ([LKey ''body'', LKey ''author''], ''missing'') \<in> set errs"
    using e ec' ea' by (intro exI [of _ errs] conjI)
  with h show ?thesis
    by (rule conjI)
qed

text \<open>
  Claim C8. When the store is unreachable with message \<open>msg\<close>, both handlers answer with
  HTTP 500 and detail \<open>msg\<close>, and the collections and the next identity are what they
  were. Once the store is reachable again, a create succeeds with the identity the
  store would have assigned before the failure, and a list returns the stored posts, as
  if the failed call had never been made.
\<close>

theorem storage_error_surfaces_as_500:
  assumes "outage st = Some msg"
  shows "fst (create_community_post post st) = Inl (HTTPException 500 msg)
       \<and> collections (snd (create_community_post post st)) = collections st
       \<and> next_oid (snd (create_community_post post st)) = next_oid st
       \<and> fst (get_community_posts limit st) = Inl (HTTPException 500 msg)
       \<and> collections (snd (get_community_posts limit st)) = collections st
       \<and> next_oid (snd (get_community_posts limit st)) = next_oid st
       \<and> fst (create_community_post post ((snd (create_community_post post st))\<lparr>outage := None\<rparr>))
           = Inr [(''id'', PStr (oid_str (next_oid st))), (''status'', PStr ''created'')]
       \<and> fst (get_community_posts limit ((snd (get_community_posts limit st))\<lparr>outage := None\<rparr>))
           = Inr [(''posts'', PList (map PDict (map stringify_id
                (take (nat limit) (map native_doc (collections st ''communitypost''))))))]
       \<and> fst (get_community_posts limit ((snd (create_community_post post st))\<lparr>outage := None\<rparr>))
           = fst (get_community_posts limit (st\<lparr>outage := None\<rparr>))
       \<and> fst (create_community_post post ((snd (get_community_posts limit st))\<lparr>outage := None\<rparr>))
           = fst (create_community_post post (st\<lparr>outage := None\<rparr>))"
proof -
  have c: "create_community_post post st =
      (Inl (HTTPException 500 msg),
       st\<lparr>calls := calls st @ [CreateDocument ''communitypost'' (model_dump post)]\<rparr>)"
    using assms by (rule create_community_post_fail)
  have g: "get_community_posts limit st =
      (Inl (HTTPException 500 msg),
       st\<lparr>calls := calls st @ [GetDocuments ''communitypost'' [] limit]\<rparr>)"
    using assms by (rule get_community_posts_fail)
  show ?thesis
    unfolding c g by (simp add: create_community_post_ok get_community_posts_ok)
qed

theorem storage_error_surfaces_as_500_witness:
  "outage down_store = Some ''connection refused''
   \<and> fst (create_community_post hello_post down_store) = Inl (HTTPException 500 ''connection refused'')
   \<and> fst (get_community_posts 20 down_store) = Inl (HTTPException 500 ''connection refused'')
   \<and> fst (create_community_post hello_post
            ((snd (create_community_post hello_post down_store))\<lparr>outage := None\<rparr>))
       = Inr [(''id'', PStr ''000000000000000000000000''), (''status'', PStr ''created'')]
   \<and> fst (get_community_posts 20 ((snd (get_community_posts 20 down_store))\<lparr>outage := None\<rparr>))
       = Inr [(''posts'', PList [])]"
proof -
  have h: "outage down_store = Some ''connection refused''"
    by (simp add: down_store_def empty_store_def)
  have a: "next_oid down_store = 0" "collections down_store ''communitypost'' = []"
    by (simp_all add: down_store_def empty_store_def)
  from storage_error_surfaces_as_500 [OF h, of hello_post 20] h show ?thesis
    by (simp add: a oid_str_0)
qed

text \<open>
  Claim C9. A body with text \<^verbatim>\<open>title\<close>, \<^verbatim>\<open>content\<close> and \<^verbatim>\<open>author\<close> and with
  \<^verbatim>\<open>tags\<close> set to \<^verbatim>\<open>null\<close> is valid, the document handed to \<^verbatim>\<open>create_document\<close> has
  \<^verbatim>\<open>tags\<close> equal to \<^verbatim>\<open>None\<close>, and on a reachable store the request succeeds.
\<close>

theorem null_tags_stored_as_none:
  assumes "json_get kvs ''title'' = Some (JStr t)"
      and "json_get kvs ''content'' = Some (JStr c)"
      and "json_get kvs ''author'' = Some (JStr a)"
      and "json_get kvs ''tags'' = Some JNull"
  shows "validate_CommunityPostIn (JObj kvs) =
           Inr \<lparr>title = t, content = c, author = a, tags = None\<rparr>
       \<and> calls (snd (post_community_posts (JObj kvs) st)) =
           calls st @ [CreateDocument ''communitypost''
             [(''title'', PStr t), (''content'', PStr c), (''author'', PStr a), (''tags'', PNone)]]
       \<and> (outage st = None \<longrightarrow>
            fst (post_community_posts (JObj kvs) st) =
              Inr [(''id'', PStr (oid_str (next_oid st))), (''status'', PStr ''created'')])"
proof -
  from assms(4) have "field_opt_str_list kvs ''tags'' = Inr None"
    by (simp add: field_opt_str_list_def)
  with assms(1-3) have v: "validate_CommunityPostIn (JObj kvs) =
      Inr \<lparr>title = t, content = c, author = a, tags = None\<rparr>"
    by (rule validate_fields)
  show ?thesis
    using v post_calls [OF v]
    by (auto simp: post_community_posts_def create_community_post_ok model_dump_def)
qed

theorem null_tags_stored_as_none_witness:
  "json_get null_tags_fields ''title'' = Some (JStr ''Hello'')
   \<and> json_get null_tags_fields ''content'' = Some (JStr ''First post'')
   \<and> json_get null_tags_fields ''author'' = Some (JStr ''alice'')
   \<and> json_get null_tags_fields ''tags'' = Some JNull
   \<and> outage empty_store = None
   \<and> validate_CommunityPostIn (JObj null_tags_fields) =
        Inr \<lparr>title = ''Hello'', content = ''First post'', author = ''alice'', tags = None\<rparr>
   \<and> calls (snd (post_community_posts (JObj null_tags_fields) empty_store)) =
        [CreateDocument ''communitypost''
           [(''title'', PStr ''Hello''), (''content'', PStr ''First post''),
            (''author'', PStr ''alice''), (''tags'', PNone)]]
   \<and> fst (post_community_posts (JObj null_tags_fields) empty_store) =
        Inr [(''id'', PStr (oid_str 0)), (''status'', PStr ''created'')]"
proof -
  have h1: "json_get null_tags_fields ''title'' = Some (JStr ''Hello'')"
    by (simp add: null_tags_fields_def json_get_def)
  have h2: "json_get null_tags_fields ''content'' = Some (JStr ''First post'')"
    by (simp add: null_tags_fields_def json_get_def)
  have h3: "json_get null_tags_fields ''author'' = Some (JStr ''alice'')"
    by (simp add: null_tags_fields_def json_get_def)
  have h4: "json_get null_tags_fields ''tags'' = Some JNull"
    by (simp add: null_tags_fields_def json_get_def)
  have h5: "outage empty_store = None" by (simp add: empty_store_def)
  have c: "calls empty_store = []" "next_oid empty_store = 0" by (simp_all add: empty_store_def)
  from null_tags_stored_as_none [OF h1 h2 h3 h4, of empty_store] h1 h2 h3 h4 h5 c
  show ?thesis by simp
qed

section \<open>Properties of the nutrition estimate\<close>

lemma scan_table_eq:
  "scan_table tbl t tot hits =
     (tot + sum_list (map snd (filter (\<lambda>kv. sublist (fst kv) t) tbl)),
      hits @ map mk_hit (filter (\<lambda>kv. sublist (fst kv) t) tbl))"
  by (induction tbl arbitrary: tot hits) (auto simp: mk_hit_def)

lemma nutrition_items:
  "items (nutrition_estimate t) = map mk_hit (filter (\<lambda>kv. sublist (fst kv) (lower t)) db_map)"
  by (simp add: nutrition_estimate_def scan_table_eq Let_def)

lemma nutrition_total:
  "estimated_calories (nutrition_estimate t) =
     sum_list (map calories (items (nutrition_estimate t)))"
  by (simp add: nutrition_estimate_def scan_table_eq Let_def mk_hit_def comp_def)

lemma sum_list_split:
  fixes f :: "'a \<Rightarrow> int"
  shows "sum_list (map f xs) =
     sum_list (map f (filter Q xs)) + sum_list (map f (filter (\<lambda>x. \<not> Q x) xs))"
  by (induction xs) simp_all

lemma sublist_egg_eggs:
  assumes "sublist ''eggs'' s"
  shows "sublist ''egg'' s"
proof -
  from assms obtain ps ss where "s = ps @ ''eggs'' @ ss"
    by (auto simp: sublist_def)
  then have "s = ps @ ''egg'' @ (''s'' @ ss)"
    by simp
  then show ?thesis
    unfolding sublist_def by blast
qed

lemma egg_part:
  assumes "sublist ''eggs'' t"
  shows "filter (\<lambda>h. item h = ''egg'' \<or> item h = ''eggs'')
           (map mk_hit (filter (\<lambda>kv. sublist (fst kv) t) db_map))
         = [\<lparr>item = ''egg'', calories = 78\<rparr>, \<lparr>item = ''eggs'', calories = 156\<rparr>]"
proof -
  have e: "sublist ''egg'' t"
    using assms by (rule sublist_egg_eggs)
  have "filter (\<lambda>h. item h = ''egg'' \<or> item h = ''eggs'')
          (map mk_hit (filter (\<lambda>kv. sublist (fst kv) t) db_map))
      = map mk_hit
          (filter (\<lambda>kv. (fst kv = ''egg'' \<or> fst kv = ''eggs'') \<and> sublist (fst kv) t) db_map)"
    by (simp add: filter_map comp_def mk_hit_def conj_commute)
  also have "\<dots> = [\<lparr>item = ''egg'', calories = 78\<rparr>, \<lparr>item = ''eggs'', calories = 156\<rparr>]"
    using assms e by (simp add: db_map_def mk_hit_def)
  finally show ?thesis .
qed

lemma distinct_items: "distinct (map item (items (nutrition_estimate t)))"
proof -
  have "distinct (map fst db_map)"
    by (simp add: db_map_def)
  then have "distinct (map fst (filter (\<lambda>kv. sublist (fst kv) (lower t)) db_map))"
    by (rule distinct_map_filter)
  then show ?thesis
    by (simp add: nutrition_items comp_def mk_hit_def)
qed

text \<open>
  Claim C10. When the lowercased text contains \<^verbatim>\<open>eggs\<close>, the items hold the entry for
  \<^verbatim>\<open>egg\<close> (78) and the entry for \<^verbatim>\<open>eggs\<close> (156), each exactly once; the estimated
  total is 234 for these two plus the calories of the other items; and no keyword
  appears twice among the items, however often it occurs in the text.
\<close>

theorem nutrition_eggs_counts_egg_and_eggs:
  assumes "sublist ''eggs'' (lower t)"
  shows "filter (\<lambda>h. item h = ''egg'' \<or> item h = ''eggs'') (items (nutrition_estimate t))
           = [\<lparr>item = ''egg'', calories = 78\<rparr>, \<lparr>item = ''eggs'', calories = 156\<rparr>]
       \<and> estimated_calories (nutrition_estimate t)
           = 234 + sum_list (map calories
               (filter (\<lambda>h. \<not> (item h = ''egg'' \<or> item h = ''eggs''))
                  (items (nutrition_estimate t))))
       \<and> distinct (map item (items (nutrition_estimate t)))"
proof -
  let ?Q = "\<lambda>h. item h = ''egg'' \<or> item h = ''eggs''"
  have a: "filter ?Q (items (nutrition_estimate t))
        = [\<lparr>item = ''egg'', calories = 78\<rparr>, \<lparr>item = ''eggs'', calories = 156\<rparr>]"
    using egg_part [OF assms] by (simp add: nutrition_items)
  have "estimated_calories (nutrition_estimate t)
      = sum_list (map calories (filter ?Q (items (nutrition_estimate t))))
      + sum_list (map calories (filter (\<lambda>h. \<not> ?Q h) (items (nutrition_estimate t))))"
    unfolding nutrition_total by (rule sum_list_split)
  then have b: "estimated_calories (nutrition_estimate t)
      = 234 + sum_list (map calories (filter (\<lambda>h. \<not> ?Q h) (items (nutrition_estimate t))))"
    unfolding a by simp
  show ?thesis
    using a b distinct_items by blast
qed

theorem nutrition_eggs_counts_egg_and_eggs_witness:
  "sublist ''eggs'' (lower ''2 Eggs, more EGGS and a banana'')
   \<and> filter (\<lambda>h. item h = ''egg'' \<or> item h = ''eggs'')
        (items (nutrition_estimate ''2 Eggs, more EGGS and a banana''))
       = [\<lparr>item = ''egg'', calories = 78\<rparr>, \<lparr>item = ''eggs'', calories = 156\<rparr>]
   \<and> estimated_calories (nutrition_estimate ''2 Eggs, more EGGS and a banana'') = 339"
proof -
  have h: "sublist ''eggs'' (lower ''2 Eggs, more EGGS and a banana'')"
    by code_simp
  have v: "estimated_calories (nutrition_estimate ''2 Eggs, more EGGS and a banana'') = 339"
    by code_simp
  show ?thesis
    using h v nutrition_eggs_counts_egg_and_eggs [OF h] by blast
qed

end
